theory Spec2Isabelle
  imports Complex_Main
begin

section \<open>The navigation plugin of RAG3D-Chat\<close>

text \<open>
  This theory embeds \<^verbatim>\<open>src/plugins/nav_plugin.py\<close> (class \<^verbatim>\<open>NavPlugin\<close>) and
  \<^verbatim>\<open>src/misc/navmesh_vis.py\<close> (function \<^verbatim>\<open>visualize_navmesh_3d\<close>).

  The plugin calls libraries that are not part of the repository: the language-model chat,
  numpy's conversion of strings to floats, its formatting of floats and its arithmetic on
  arrays of floats, libigl's \<^verbatim>\<open>signed_distance\<close>, pygeodesic's mesh reader and exact
  geodesic solver, and plotly's \<^verbatim>\<open>write_html\<close>. They are the fields of the record \<open>collab\<close>, passed to every
  operation, so each theorem holds for every behaviour of these libraries unless a
  hypothesis says otherwise. Calls of \<^verbatim>\<open>logger.info\<close> are left out, except where
  building the logged text can raise.
\<close>

subsection \<open>Python values\<close>

text \<open>The exceptions the modelled code can raise.\<close>

datatype error = AttributeError | ValueError | IndexError | OSError

text \<open>
  A Python float: a finite value, given by the real number it denotes, or one of the three
  special values of IEEE 754. Comparing two floats is exact, so it is defined here
  (\<open>fge\<close> below). What numpy's arithmetic returns depends on rounding, overflow and
  underflow: the subtraction of arrays and \<^verbatim>\<open>np.linalg.norm\<close> are collaborators.
\<close>

datatype pyfloat = Fin real | PInf | NInf | NaN

type_synonym point = "pyfloat \<times> pyfloat \<times> pyfloat"

type_synonym face = "nat \<times> nat \<times> nat"

fun isfinite :: "pyfloat \<Rightarrow> bool" where
  "isfinite (Fin a) = True"
| "isfinite PInf = False"
| "isfinite NInf = False"
| "isfinite NaN = False"

fun finite_point :: "point \<Rightarrow> bool" where
  "finite_point (x, y, z) = (isfinite x \<and> isfinite y \<and> isfinite z)"

text \<open>IEEE comparison \<open>x >= y\<close>: false as soon as one side is \<open>NaN\<close>.\<close>

fun fge :: "pyfloat \<Rightarrow> pyfloat \<Rightarrow> bool" where
  "fge NaN y = False"
| "fge x NaN = False"
| "fge PInf y = True"
| "fge x NInf = True"
| "fge (Fin a) (Fin b) = (b \<le> a)"
| "fge (Fin a) PInf = False"
| "fge NInf (Fin b) = False"
| "fge NInf PInf = False"

text \<open>
  \<^verbatim>\<open>np.argmin\<close> on a one-dimensional array of floats. It raises \<^verbatim>\<open>ValueError\<close> on an
  empty array; otherwise it scans from the left, keeps the first smallest value, and
  stops at the first \<open>NaN\<close>, which counts as minimal. \<open>argmin_loop xs i mp mi\<close> is the
  scan at index \<open>i\<close> with the current minimum \<open>mp\<close> found at index \<open>mi\<close>.
\<close>

fun argmin_loop :: "pyfloat list \<Rightarrow> nat \<Rightarrow> pyfloat \<Rightarrow> nat \<Rightarrow> nat" where
  "argmin_loop [] i mp mi = mi"
| "argmin_loop (x # xs) i mp mi =
     (if \<not> fge x mp
      then (if x = NaN then i else argmin_loop xs (Suc i) x i)
      else argmin_loop xs (Suc i) mp mi)"

definition argmin :: "pyfloat list \<Rightarrow> error + nat" where
  "argmin ds =
     (case ds of
        [] \<Rightarrow> Inl ValueError
      | d # rest \<Rightarrow> if d = NaN then Inr 0 else Inr (argmin_loop rest 1 d 0))"

subsection \<open>Strings\<close>

text \<open>\<^verbatim>\<open>s.replace(c, "")\<close> for a one-character \<open>c\<close>: every occurrence is removed.\<close>

definition remove_char :: "char \<Rightarrow> string \<Rightarrow> string" where
  "remove_char c s = filter (\<lambda>x. x \<noteq> c) s"

text \<open>
  \<^verbatim>\<open>s.split(",")\<close>: the pieces between the separators, empty pieces kept; the result
  is never empty (an empty string gives one empty piece).
\<close>

fun split_on :: "char \<Rightarrow> string \<Rightarrow> string list" where
  "split_on c [] = [[]]"
| "split_on c (x # xs) =
     (if x = c then [] # split_on c xs
      else (case split_on c xs of
              [] \<Rightarrow> [[x]]
            | w # ws \<Rightarrow> (x # w) # ws))"

subsection \<open>The collaborators\<close>

record collab =
  get_response :: "string \<Rightarrow> string \<Rightarrow> string option"
  to_float :: "string \<Rightarrow> pyfloat option"
  float_str :: "pyfloat \<Rightarrow> string"
  round2_str :: "pyfloat \<Rightarrow> string"
  array_sub :: "point \<Rightarrow> point \<Rightarrow> point"
  linalg_norm :: "point \<Rightarrow> pyfloat"
  read_mesh_from_file :: "string \<Rightarrow> error + (point list \<times> face list)"
  signed_distance :: "point list \<Rightarrow> face list \<Rightarrow> point \<Rightarrow> point"
  geodesicDistance :: "point list \<Rightarrow> face list \<Rightarrow> nat \<Rightarrow> nat \<Rightarrow> (pyfloat \<times> point list) option"
  write_html :: "string \<Rightarrow> string \<Rightarrow> error option"

text \<open>
  \<^item> \<open>get_response\<close> is \<^verbatim>\<open>AbstractLlmChat.get_response(system_msg, query)\<close>. The example
    implementation returns \<^verbatim>\<open>message.content\<close>, which may be Python's \<^verbatim>\<open>None\<close>: that
    is the value \<open>None\<close> here, a string is \<open>Some s\<close>.
  \<^item> \<open>to_float\<close> is numpy's conversion of one string to a float (\<open>None\<close>: it raises
    \<^verbatim>\<open>ValueError\<close>); \<open>float_str\<close> is the text of a float in an f-string and
    \<open>round2_str\<close> the text of \<^verbatim>\<open>np.round(x, 2)\<close>.
  \<^item> \<open>array_sub a b\<close> is numpy's \<^verbatim>\<open>a - b\<close> on two arrays of three floats, and
    \<open>linalg_norm a\<close> is \<^verbatim>\<open>np.linalg.norm\<close> of one such array (of one row, with
    \<^verbatim>\<open>axis=1\<close>): the Euclidean norm as numpy computes it in binary64.
  \<^item> \<open>read_mesh_from_file\<close> is pygeodesic's reader.
  \<^item> \<open>signed_distance vs fs p\<close> is the third result of \<^verbatim>\<open>igl.signed_distance\<close>, the
    point of the surface closest to \<open>p\<close>.
  \<^item> \<open>geodesicDistance vs fs i j\<close> is \<^verbatim>\<open>PyGeodesicAlgorithmExact(vs, fs).geodesicDistance(i, j)\<close>;
    \<open>None\<close> stands for the pair \<^verbatim>\<open>(None, None)\<close>, \<open>Some (d, path)\<close> for a length and an
    array of path points, which is empty when the solver found no path.
  \<^item> \<open>write_html dir name\<close> is plotly's \<^verbatim>\<open>fig.write_html\<close> on the file \<open>name\<close> of the
    directory \<open>dir\<close>: \<open>None\<close> when the file was written, \<open>Some e\<close> when it raised \<open>e\<close>.
\<close>

subsection \<open>Arithmetic without rounding\<close>

text \<open>
  The subtraction of two points and the Euclidean norm as they are when nothing is
  rounded: finite values are combined over the reals, the special values as IEEE 754
  says. This is not numpy's arithmetic. It serves the concrete collaborators below, and
  says what the distances are where numpy's results are exact.
\<close>

text \<open>\<open>x - y\<close>.\<close>

fun fsub :: "pyfloat \<Rightarrow> pyfloat \<Rightarrow> pyfloat" where
  "fsub NaN y = NaN"
| "fsub x NaN = NaN"
| "fsub (Fin a) (Fin b) = Fin (a - b)"
| "fsub (Fin a) PInf = NInf"
| "fsub (Fin a) NInf = PInf"
| "fsub PInf (Fin b) = PInf"
| "fsub PInf NInf = PInf"
| "fsub PInf PInf = NaN"
| "fsub NInf (Fin b) = NInf"
| "fsub NInf PInf = NInf"
| "fsub NInf NInf = NaN"

text \<open>\<open>x * x\<close>.\<close>

fun fsquare :: "pyfloat \<Rightarrow> pyfloat" where
  "fsquare (Fin a) = Fin (a * a)"
| "fsquare PInf = PInf"
| "fsquare NInf = PInf"
| "fsquare NaN = NaN"

text \<open>\<open>x + y\<close>.\<close>

fun fadd :: "pyfloat \<Rightarrow> pyfloat \<Rightarrow> pyfloat" where
  "fadd NaN y = NaN"
| "fadd x NaN = NaN"
| "fadd (Fin a) (Fin b) = Fin (a + b)"
| "fadd (Fin a) PInf = PInf"
| "fadd (Fin a) NInf = NInf"
| "fadd PInf (Fin b) = PInf"
| "fadd PInf PInf = PInf"
| "fadd PInf NInf = NaN"
| "fadd NInf (Fin b) = NInf"
| "fadd NInf NInf = NInf"
| "fadd NInf PInf = NaN"

text \<open>The square root.\<close>

fun fsqrt :: "pyfloat \<Rightarrow> pyfloat" where
  "fsqrt (Fin a) = (if a < 0 then NaN else Fin (sqrt a))"
| "fsqrt PInf = PInf"
| "fsqrt NInf = NaN"
| "fsqrt NaN = NaN"

fun exact_sub :: "point \<Rightarrow> point \<Rightarrow> point" where
  "exact_sub (x1, y1, z1) (x2, y2, z2) = (fsub x1 x2, fsub y1 y2, fsub z1 z2)"

text \<open>
  The square root of the sum of the squares. The root is the one of the reals, so
  concrete runs are evaluated by rewriting, which knows the roots of squares and how
  roots compare.
\<close>

fun exact_norm :: "point \<Rightarrow> pyfloat" where
  "exact_norm (x, y, z) = fsqrt (fadd (fadd (fsquare x) (fsquare y)) (fsquare z))"

subsection \<open>Prompts and messages\<close>

definition NAV_SYSTEM_PROMPT :: string where
  "NAV_SYSTEM_PROMPT =
     ''Act as a text-to-positions converter. Your job is to process a natural language query which contains information about 3D positions of two objects. '' @
     ''Return an answer in the following format: '(x1,y1,z1),(x2,y2,z2)', where x1,y1,z1 correspond to 3D position of the first object and x2,y2,z2 are the coordinates of the second object. '' @
     ''Make sure that the xyz positions have no more than three decimal values. '' @
     ''If in the input there are no positions given, the positions do not have all 3 components each, the values cannot be parsed to values or if there are too few/too many objects, return 'None'. '' @
     ''Do not perform actions that are not related to this task.''"

definition extraction_failed_msg :: string where
  "extraction_failed_msg =
     ''The query does not contain information about the objects' '' @
     ''positions or the positions could not be parsed.''"

definition not_navigable_msg :: string where
  "not_navigable_msg =
     ''The path between specified objects is not navigable considering obstacles.''"

definition distance_msg :: "string \<Rightarrow> string" where
  "distance_msg d = ''The distance between specified points is '' @ d @ '' meters.''"

subsection \<open>Extracting the two positions\<close>

text \<open>\<^verbatim>\<open>np.array(split_values, dtype=float)\<close>: every piece is converted, or it raises.\<close>

fun to_float_array :: "(string \<Rightarrow> pyfloat option) \<Rightarrow> string list \<Rightarrow> error + pyfloat list" where
  "to_float_array conv [] = Inr []"
| "to_float_array conv (s # ss) =
     (case conv s of
        None \<Rightarrow> Inl ValueError
      | Some x \<Rightarrow> (case to_float_array conv ss of
                    Inl e \<Rightarrow> Inl e
                  | Inr xs \<Rightarrow> Inr (x # xs)))"

text \<open>\<^verbatim>\<open>.reshape(-1, 3)\<close>: rows of three, or \<^verbatim>\<open>ValueError\<close> when the size is no multiple of three.\<close>

fun rows3 :: "pyfloat list \<Rightarrow> point list" where
  "rows3 (x # y # z # rest) = (x, y, z) # rows3 rest"
| "rows3 rest = []"

definition reshape3 :: "pyfloat list \<Rightarrow> error + point list" where
  "reshape3 xs = (if length xs mod 3 \<noteq> 0 then Inl ValueError else Inr (rows3 xs))"

text \<open>\<^verbatim>\<open>a[i]\<close> for a non-negative \<open>i\<close>: \<^verbatim>\<open>IndexError\<close> out of range.\<close>

definition row :: "'a list \<Rightarrow> nat \<Rightarrow> error + 'a" where
  "row xs i = (if i < length xs then Inr (xs ! i) else Inl IndexError)"

text \<open>
  The first two lines of the \<^verbatim>\<open>try\<close> block of \<^verbatim>\<open>_nl_to_numpy\<close>: both kinds of
  parentheses are removed, then the string is split at the commas.
\<close>

definition split_values :: "string \<Rightarrow> string list" where
  "split_values response =
     split_on CHR '','' (remove_char CHR '')'' (remove_char CHR ''('' response))"

text \<open>
  The body of the \<^verbatim>\<open>try\<close> block, applied to the response. A response that is not a
  string has no \<^verbatim>\<open>replace\<close>. Both rows are read (for the logged text) before the
  \<^verbatim>\<open>return\<close>.
\<close>

definition parse_positions :: "(string \<Rightarrow> pyfloat option) \<Rightarrow> string option \<Rightarrow> error + (point \<times> point)" where
  "parse_positions conv response =
     (case response of
        None \<Rightarrow> Inl AttributeError
      | Some r \<Rightarrow>
          (case to_float_array conv (split_values r) of
             Inl e \<Rightarrow> Inl e
           | Inr values \<Rightarrow>
               (case reshape3 values of
                  Inl e \<Rightarrow> Inl e
                | Inr numpy_arrays \<Rightarrow>
                    (case row numpy_arrays 0 of
                       Inl e \<Rightarrow> Inl e
                     | Inr a0 \<Rightarrow>
                         (case row numpy_arrays 1 of
                            Inl e \<Rightarrow> Inl e
                          | Inr a1 \<Rightarrow> Inr (a0, a1))))))"

text \<open>
  \<^verbatim>\<open>_nl_to_numpy\<close>: the pair \<^verbatim>\<open>(None, None)\<close> for the sentinel and for every exception
  of the \<^verbatim>\<open>try\<close> block, the first two rows otherwise.
\<close>

definition nl_to_numpy :: "collab \<Rightarrow> string \<Rightarrow> point option \<times> point option" where
  "nl_to_numpy ext natural_language_descr =
     (let response = get_response ext NAV_SYSTEM_PROMPT natural_language_descr
      in if response = Some ''None'' then (None, None)
         else (case parse_positions (to_float ext) response of
                 Inl e \<Rightarrow> (None, None)
               | Inr (a0, a1) \<Rightarrow> (Some a0, Some a1)))"

subsection \<open>The plugin and the files it writes\<close>

text \<open>
  The attributes of a \<^verbatim>\<open>NavPlugin\<close> object (\<^verbatim>\<open>_vertices\<close>, \<^verbatim>\<open>_faces\<close>,
  \<^verbatim>\<open>_vis_dirpath\<close>; the chat is \<open>get_response\<close> above) and the HTML files written so
  far, each a directory and a file name. Every operation takes the state and returns
  the new one. A \<^verbatim>\<open>Path\<close> object is always true in a condition, so
  \<^verbatim>\<open>if self._vis_dirpath\<close> asks whether it is not \<^verbatim>\<open>None\<close>.
\<close>

record state =
  vertices :: "point list"
  faces :: "face list"
  vis_dirpath :: "string option"
  html_files :: "(string \<times> string) list"

text \<open>\<^verbatim>\<open>NavPlugin.__init__\<close>: the one place where the mesh is stored.\<close>

definition init :: "collab \<Rightarrow> string \<Rightarrow> string option \<Rightarrow> error + state" where
  "init ext navmesh_filepath vis =
     (case read_mesh_from_file ext navmesh_filepath of
        Inl e \<Rightarrow> Inl e
      | Inr (vs, fs) \<Rightarrow>
          Inr \<lparr>vertices = vs, faces = fs, vis_dirpath = vis, html_files = []\<rparr>)"

subsection \<open>Snapping a point to the mesh\<close>

text \<open>
  One entry of \<^verbatim>\<open>np.linalg.norm(self._vertices - closest_point, axis=1)\<close>: the distance
  that numpy computes from the point \<open>c\<close> to the vertex \<open>v\<close>.
\<close>

definition distance_from :: "collab \<Rightarrow> point \<Rightarrow> point \<Rightarrow> pyfloat" where
  "distance_from ext c v = linalg_norm ext (array_sub ext v c)"

text \<open>
  \<^verbatim>\<open>_snap_to_closest_vertex\<close>: the closest point of the surface, then the distances
  from that point to every vertex, then the index of the smallest one.
\<close>

definition snap_to_closest_vertex :: "collab \<Rightarrow> state \<Rightarrow> point \<Rightarrow> error + (point \<times> point \<times> nat)" where
  "snap_to_closest_vertex ext s p =
     (let closest_point = signed_distance ext (vertices s) (faces s) p;
          distances = map (distance_from ext closest_point) (vertices s)
      in case argmin distances of
           Inl e \<Rightarrow> Inl e
         | Inr closest_vertex_index \<Rightarrow>
             Inr (closest_point, vertices s ! closest_vertex_index, closest_vertex_index))"

subsection \<open>The visualizer\<close>

text \<open>
  The loop over the faces of \<^verbatim>\<open>visualize_navmesh_3d\<close>: it reads the three vertices of
  each face, and an index out of range raises.
\<close>

fun collect_triangles :: "point list \<Rightarrow> face list \<Rightarrow> error + (point \<times> point \<times> point) list" where
  "collect_triangles vs [] = Inr []"
| "collect_triangles vs ((a, b, c) # fs) =
     (if a < length vs \<and> b < length vs \<and> c < length vs
      then (case collect_triangles vs fs of
              Inl e \<Rightarrow> Inl e
            | Inr ts \<Rightarrow> Inr ((vs ! a, vs ! b, vs ! c) # ts))
      else Inl IndexError)"

text \<open>
  \<^verbatim>\<open>visualize_navmesh_3d\<close>, as far as it can raise or write: \<^verbatim>\<open>np.concatenate\<close>
  raises on an empty list of triangles; unpacking \<^verbatim>\<open>zip(*waypoints)\<close> into three names
  raises when \<open>waypoints\<close> has no row; \<^verbatim>\<open>write_html\<close> writes the file or raises. The
  figure itself is built by plotly and is not modelled. The result is the list of files
  written so far.
\<close>

definition visualize_navmesh_3d ::
  "collab \<Rightarrow> point list \<Rightarrow> face list \<Rightarrow> string \<times> string \<Rightarrow> point list option \<Rightarrow>
   (string \<times> point \<times> string) list \<Rightarrow> (string \<times> string) list \<Rightarrow> error + (string \<times> string) list" where
  "visualize_navmesh_3d ext vs fs out_filename waypoints points files =
     (case collect_triangles vs fs of
        Inl e \<Rightarrow> Inl e
      | Inr triangles \<Rightarrow>
          if triangles = [] then Inl ValueError
          else if waypoints = Some [] then Inl ValueError
          else (case write_html ext (fst out_filename) (snd out_filename) of
                  Some e \<Rightarrow> Inl e
                | None \<Rightarrow> Inr (files @ [out_filename])))"

subsection \<open>The distance operations\<close>

text \<open>\<^verbatim>\<open>"-".join(map(str, np.round(p, 2)))\<close>.\<close>

fun point_str :: "collab \<Rightarrow> point \<Rightarrow> string" where
  "point_str ext (x, y, z) =
     round2_str ext x @ ''-'' @ round2_str ext y @ ''-'' @ round2_str ext z"

text \<open>The answer of \<^verbatim>\<open>_get_navigable_distance\<close> for a result of the solver.\<close>

definition navigable_response :: "collab \<Rightarrow> (pyfloat \<times> point list) option \<Rightarrow> string" where
  "navigable_response ext r =
     (case r of
        None \<Rightarrow> not_navigable_msg
      | Some (d, path) \<Rightarrow>
          if path \<noteq> [] then distance_msg (float_str ext d) else not_navigable_msg)"

text \<open>The dictionary \<open>points\<close> of \<^verbatim>\<open>_get_navigable_distance\<close>: name, position, colour.\<close>

definition marker_points ::
  "point \<Rightarrow> point \<Rightarrow> point \<Rightarrow> point \<Rightarrow> point \<Rightarrow> point \<Rightarrow> (string \<times> point \<times> string) list" where
  "marker_points start goal closest_s closest_g closest_v_s closest_v_g =
     [(''start'', start, ''blue''),
      (''goal'', goal, ''green''),
      (''closest_start'', closest_s, ''darkblue''),
      (''closest_goal'', closest_g, ''darkgreen''),
      (''closest_v_start'', closest_v_s, ''lightblue''),
      (''closest_v_goal'', closest_v_g, ''lightgreen'')]"

text \<open>The file \<^verbatim>\<open>self._vis_dirpath / f"{start_str}_{goal_str}.html"\<close>.\<close>

definition vis_filename :: "collab \<Rightarrow> string \<Rightarrow> point \<Rightarrow> point \<Rightarrow> string \<times> string" where
  "vis_filename ext dir start goal =
     (dir, point_str ext start @ ''_'' @ point_str ext goal @ ''.html'')"

text \<open>
  \<^verbatim>\<open>_get_navigable_distance\<close>. The visualizer is called without a \<^verbatim>\<open>try\<close>: what it
  raises leaves the method in place of the answer.
\<close>

definition get_navigable_distance :: "collab \<Rightarrow> state \<Rightarrow> point \<Rightarrow> point \<Rightarrow> (error + string) \<times> state" where
  "get_navigable_distance ext s start goal =
     (case snap_to_closest_vertex ext s start of
        Inl e \<Rightarrow> (Inl e, s)
      | Inr (closest_s, closest_v_s, closest_vid_s) \<Rightarrow>
          (case snap_to_closest_vertex ext s goal of
             Inl e \<Rightarrow> (Inl e, s)
           | Inr (closest_g, closest_v_g, closest_vid_g) \<Rightarrow>
               (let solved = geodesicDistance ext (vertices s) (faces s) closest_vid_s closest_vid_g;
                    response = navigable_response ext solved
                in case vis_dirpath s of
                     None \<Rightarrow> (Inr response, s)
                   | Some dir \<Rightarrow>
                       (case visualize_navmesh_3d ext (vertices s) (faces s)
                               (vis_filename ext dir start goal) (map_option snd solved)
                               (marker_points start goal closest_s closest_g closest_v_s closest_v_g)
                               (html_files s) of
                          Inl e \<Rightarrow> (Inl e, s)
                        | Inr files \<Rightarrow> (Inr response, s\<lparr>html_files := files\<rparr>)))))"

text \<open>\<^verbatim>\<open>get_actual_distance_from_query\<close>.\<close>

definition get_actual_distance_from_query :: "collab \<Rightarrow> state \<Rightarrow> string \<Rightarrow> (error + string) \<times> state" where
  "get_actual_distance_from_query ext s natural_language_descr =
     (case nl_to_numpy ext natural_language_descr of
        (Some start, Some goal) \<Rightarrow> get_navigable_distance ext s start goal
      | _ \<Rightarrow> (Inr extraction_failed_msg, s))"

text \<open>\<^verbatim>\<open>get_straight_line_distance_from_query\<close>.\<close>

definition get_straight_line_distance_from_query :: "collab \<Rightarrow> state \<Rightarrow> string \<Rightarrow> (error + string) \<times> state" where
  "get_straight_line_distance_from_query ext s natural_language_descr =
     (case nl_to_numpy ext natural_language_descr of
        (Some start, Some goal) \<Rightarrow>
          (Inr (distance_msg (float_str ext (linalg_norm ext (array_sub ext goal start)))), s)
      | _ \<Rightarrow> (Inr extraction_failed_msg, s))"

text \<open>A session: queries of either kind, one after the other, on the same plugin.\<close>

datatype query = Actual string | Line string

fun run_query :: "collab \<Rightarrow> state \<Rightarrow> query \<Rightarrow> (error + string) \<times> state" where
  "run_query ext s (Actual q) = get_actual_distance_from_query ext s q"
| "run_query ext s (Line q) = get_straight_line_distance_from_query ext s q"

fun run_queries :: "collab \<Rightarrow> state \<Rightarrow> query list \<Rightarrow> state" where
  "run_queries ext s [] = s"
| "run_queries ext s (q # qs) = run_queries ext (snd (run_query ext s q)) qs"

subsection \<open>What the claims call parseable\<close>

text \<open>
  The description of a well-formed response, in the words of the specification: without
  its parentheses the response splits at the commas into \<open>3k\<close> values that all convert
  to floats, with \<open>k \<ge> 2\<close>. It is compared with the parser below.
\<close>

definition spec_parseable :: "(string \<Rightarrow> pyfloat option) \<Rightarrow> string \<Rightarrow> bool" where
  "spec_parseable conv r =
     (let vs = split_values r
      in list_all (\<lambda>v. conv v \<noteq> None) vs \<and> length vs mod 3 = 0 \<and> 6 \<le> length vs)"

text \<open>The first two triples of the converted values.\<close>

definition first_two_triples :: "(string \<Rightarrow> pyfloat option) \<Rightarrow> string \<Rightarrow> point \<times> point" where
  "first_two_triples conv r =
     (let xs = map (the \<circ> conv) (split_values r)
      in ((xs ! 0, xs ! 1, xs ! 2), (xs ! 3, xs ! 4, xs ! 5)))"

subsection \<open>The first minimum of an array, and a well-formed mesh\<close>

text \<open>
  Index \<open>i\<close> holds the first minimum of \<open>ds\<close>: no entry before \<open>i\<close> is \<open>NaN\<close> or at
  most \<open>ds ! i\<close>, and every entry is at least \<open>ds ! i\<close> unless \<open>ds ! i\<close> is \<open>NaN\<close>
  (which numpy takes as minimal). On an array without \<open>NaN\<close> this is the smallest value
  at its lowest index.
\<close>

definition first_minimum :: "pyfloat list \<Rightarrow> nat \<Rightarrow> bool" where
  "first_minimum ds i =
     (i < length ds
      \<and> (\<forall>j < length ds. fge (ds ! j) (ds ! i) \<or> ds ! i = NaN)
      \<and> (\<forall>j < i. ds ! j \<noteq> NaN \<and> \<not> fge (ds ! i) (ds ! j)))"

text \<open>The invariant of the data model: every index of every face is a vertex index.\<close>

fun faces_in_range :: "nat \<Rightarrow> face list \<Rightarrow> bool" where
  "faces_in_range n [] = True"
| "faces_in_range n ((a, b, c) # fs) = (a < n \<and> b < n \<and> c < n \<and> faces_in_range n fs)"

subsection \<open>Reachability on the mesh\<close>

text \<open>
  Two vertex indices are linked when one face holds both; a connected component of the
  mesh is a class of the reflexive transitive closure of that relation.
\<close>

fun share_face :: "face list \<Rightarrow> nat \<Rightarrow> nat \<Rightarrow> bool" where
  "share_face [] i j = False"
| "share_face ((a, b, c) # fs) i j =
     (((i = a \<or> i = b \<or> i = c) \<and> (j = a \<or> j = b \<or> j = c)) \<or> share_face fs i j)"

inductive same_component :: "face list \<Rightarrow> nat \<Rightarrow> nat \<Rightarrow> bool" for fs :: "face list" where
  refl: "same_component fs i i"
| step: "same_component fs i j \<Longrightarrow> share_face fs j k \<Longrightarrow> same_component fs i k"

subsection \<open>A concrete mesh and concrete collaborators\<close>

text \<open>
  The mesh of the runs below: two triangles that share no vertex, one unit apart from the
  origin and one five units away, so the mesh has two connected components.
\<close>

definition islands_vertices :: "point list" where
  "islands_vertices =
     [(Fin 0, Fin 0, Fin 0), (Fin 1, Fin 0, Fin 0), (Fin 0, Fin 1, Fin 0),
      (Fin 5, Fin 0, Fin 0), (Fin 6, Fin 0, Fin 0), (Fin 5, Fin 1, Fin 0)]"

definition islands_faces :: "face list" where
  "islands_faces = [(0, 1, 2), (3, 4, 5)]"

text \<open>A chat that answers with the query itself, and with no content to the query \<open>?\<close>.\<close>

definition echo_chat :: "string \<Rightarrow> string \<Rightarrow> string option" where
  "echo_chat system_msg query = (if query = ''?'' then None else Some query)"

text \<open>A conversion that knows a few numerals and \<open>nan\<close>.\<close>

definition small_float :: "string \<Rightarrow> pyfloat option" where
  "small_float =
     map_of [(''0'', Fin 0), (''1'', Fin 1), (''2'', Fin 2), (''3'', Fin 3), (''4'', Fin 4),
             (''5'', Fin 5), (''6'', Fin 6), (''nan'', NaN)]"

fun small_str :: "pyfloat \<Rightarrow> string" where
  "small_str (Fin a) = (if a = 0 then ''0.0'' else if a = 1 then ''1.0'' else ''5.0'')"
| "small_str PInf = ''inf''"
| "small_str NInf = ''-inf''"
| "small_str NaN = ''nan''"

definition islands_reader :: "string \<Rightarrow> error + (point list \<times> face list)" where
  "islands_reader path =
     (if path = ''islands.txt'' then Inr (islands_vertices, islands_faces) else Inl OSError)"

text \<open>
  A solver that is exact on a mesh whose components are single triangles: a vertex
  reaches itself by a one-point path, another vertex of its triangle by the straight
  segment, and no vertex of another triangle (an empty path of length zero). An index
  out of range gives \<^verbatim>\<open>(None, None)\<close>.
\<close>

definition triangle_solver :: "point list \<Rightarrow> face list \<Rightarrow> nat \<Rightarrow> nat \<Rightarrow> (pyfloat \<times> point list) option" where
  "triangle_solver vs fs i j =
     (if length vs \<le> i \<or> length vs \<le> j then None
      else if i = j then Some (Fin 0, [vs ! i])
      else if share_face fs i j
      then Some (exact_norm (exact_sub (vs ! j) (vs ! i)), [vs ! i, vs ! j])
      else Some (Fin 0, []))"

text \<open>A writer that fails in the directory \<open>missing\<close> and writes everywhere else.\<close>

definition picky_writer :: "string \<Rightarrow> string \<Rightarrow> error option" where
  "picky_writer dir name = (if dir = ''missing'' then Some OSError else None)"

text \<open>
  The same vertices with the first triangle only: vertices 3, 4 and 5 belong to no face.
\<close>

definition lone_faces :: "face list" where
  "lone_faces = [(0, 1, 2)]"

text \<open>
  The closest point of the surface, for the query points of the runs below. A point of a
  face is its own closest point. The point \<open>(2, 2, 0)\<close> lies off both meshes; the
  closest point of their surface is the middle \<open>(1/2, 1/2, 0)\<close> of the long side of the
  first triangle. On the mesh with the first triangle only, the vertex \<open>(5, 0, 0)\<close> is
  on no face, and the closest point of the surface is the corner \<open>(1, 0, 0)\<close>.
\<close>

definition table_projection :: "point list \<Rightarrow> face list \<Rightarrow> point \<Rightarrow> point" where
  "table_projection vs fs p =
     (if p = (Fin 2, Fin 2, Fin 0) then (Fin (1 / 2), Fin (1 / 2), Fin 0)
      else if fs = lone_faces \<and> p = (Fin 5, Fin 0, Fin 0) then (Fin 1, Fin 0, Fin 0)
      else p)"

text \<open>
  The arithmetic is the one without rounding. On the small numbers used below numpy's
  differences and sums of squares are exact, so its distances compare as these do.
\<close>

definition islands_ext :: collab where
  "islands_ext =
     \<lparr>get_response = echo_chat, to_float = small_float, float_str = small_str,
      round2_str = small_str, array_sub = exact_sub, linalg_norm = exact_norm,
      read_mesh_from_file = islands_reader,
      signed_distance = table_projection, geodesicDistance = triangle_solver,
      write_html = picky_writer\<rparr>"

definition islands :: "string option \<Rightarrow> state" where
  "islands vis =
     \<lparr>vertices = islands_vertices, faces = islands_faces, vis_dirpath = vis, html_files = []\<rparr>"

definition lone :: "string option \<Rightarrow> state" where
  "lone vis =
     \<lparr>vertices = islands_vertices, faces = lone_faces, vis_dirpath = vis, html_files = []\<rparr>"

section \<open>Properties\<close>

subsection \<open>The parser\<close>

lemma to_float_array_all:
  "list_all (\<lambda>v. conv v \<noteq> None) ss \<Longrightarrow> to_float_array conv ss = Inr (map (the \<circ> conv) ss)"
  by (induction ss) auto

lemma to_float_array_fail:
  "\<not> list_all (\<lambda>v. conv v \<noteq> None) ss \<Longrightarrow> to_float_array conv ss = Inl ValueError"
  by (induction ss) (auto split: option.splits sum.splits)

lemma rows3_length: "length (rows3 xs) = length xs div 3"
  by (induction xs rule: rows3.induct) auto

lemma rows3_nth0: "3 \<le> length xs \<Longrightarrow> rows3 xs ! 0 = (xs ! 0, xs ! 1, xs ! 2)"
  by (cases xs rule: rows3.cases) auto

lemma rows3_nth1: "6 \<le> length xs \<Longrightarrow> rows3 xs ! 1 = (xs ! 3, xs ! 4, xs ! 5)"
proof -
  assume len: "6 \<le> length xs"
  then obtain x y z rest where xs: "xs = x # y # z # rest"
    by (cases xs rule: rows3.cases) auto
  with len have "3 \<le> length rest" by simp
  then have "rows3 rest ! 0 = (rest ! 0, rest ! 1, rest ! 2)" by (rule rows3_nth0)
  then show ?thesis by (simp add: xs numeral_3_eq_3 eval_nat_numeral)
qed

lemma parse_positions_ok:
  assumes "spec_parseable conv r"
  shows "parse_positions conv (Some r) = Inr (first_two_triples conv r)"
proof -
  let ?vs = "split_values r"
  let ?xs = "map (the \<circ> conv) ?vs"
  from assms have all: "list_all (\<lambda>v. conv v \<noteq> None) ?vs"
    and m3: "length ?xs mod 3 = 0" and l6: "6 \<le> length ?xs"
    by (simp_all add: spec_parseable_def Let_def)
  have conv: "to_float_array conv ?vs = Inr ?xs" using all by (rule to_float_array_all)
  have rs: "reshape3 ?xs = Inr (rows3 ?xs)" using m3 by (simp add: reshape3_def)
  have len: "2 \<le> length (rows3 ?xs)" using l6 by (simp add: rows3_length)
  have n0: "rows3 ?xs ! 0 = (?xs ! 0, ?xs ! 1, ?xs ! 2)" using l6 by (intro rows3_nth0) simp
  have n1: "rows3 ?xs ! 1 = (?xs ! 3, ?xs ! 4, ?xs ! 5)" using l6 by (intro rows3_nth1)
  have r0: "row (rows3 ?xs) 0 = Inr (?xs ! 0, ?xs ! 1, ?xs ! 2)"
    unfolding row_def n0 using len by (cases "rows3 ?xs") simp_all
  have r1: "row (rows3 ?xs) 1 = Inr (?xs ! 3, ?xs ! 4, ?xs ! 5)"
    unfolding row_def n1 using len by simp
  show ?thesis
    unfolding parse_positions_def first_two_triples_def Let_def
    by (simp only: option.case sum.case conv rs r0 r1)
qed

lemma parse_positions_fail:
  assumes "\<not> spec_parseable conv r"
  shows "\<exists>e. parse_positions conv (Some r) = Inl e"
proof (cases "list_all (\<lambda>v. conv v \<noteq> None) (split_values r)")
  case False
  then show ?thesis by (simp add: parse_positions_def to_float_array_fail)
next
  case True
  let ?xs = "map (the \<circ> conv) (split_values r)"
  have conv: "to_float_array conv (split_values r) = Inr ?xs" using True by (rule to_float_array_all)
  from assms True have bad: "length ?xs mod 3 \<noteq> 0 \<or> length ?xs < 6"
    by (auto simp: spec_parseable_def Let_def)
  show ?thesis
  proof (cases "length ?xs mod 3 \<noteq> 0")
    case True
    then show ?thesis by (simp add: parse_positions_def conv reshape3_def)
  next
    case False
    with bad have "length ?xs < 6" by simp
    then have "length (rows3 ?xs) < 2" by (simp add: rows3_length)
    then have "row (rows3 ?xs) 0 = Inl IndexError \<or> row (rows3 ?xs) 1 = Inl IndexError"
      by (simp add: row_def)
    with False show ?thesis
      by (auto simp add: parse_positions_def conv reshape3_def split: sum.splits)
  qed
qed

lemma nl_to_numpy_fail:
  assumes "get_response ext NAV_SYSTEM_PROMPT q = r"
    and "r = None \<or> r = Some ''None'' \<or> (\<exists>t. r = Some t \<and> \<not> spec_parseable (to_float ext) t)"
  shows "nl_to_numpy ext q = (None, None)"
proof -
  consider "r = Some ''None''" | "r = None" | t where "r = Some t" "\<not> spec_parseable (to_float ext) t"
    using assms(2) by blast
  then show ?thesis
  proof cases
    case 1 then show ?thesis using assms(1) by (simp add: nl_to_numpy_def)
  next
    case 2 then show ?thesis using assms(1) by (simp add: nl_to_numpy_def parse_positions_def)
  next
    case 3
    from parse_positions_fail [OF 3(2)] obtain e where "parse_positions (to_float ext) (Some t) = Inl e" ..
    then show ?thesis using assms(1) 3(1) by (simp add: nl_to_numpy_def)
  qed
qed

lemma nl_to_numpy_ok:
  assumes "get_response ext NAV_SYSTEM_PROMPT q = Some r" and "r \<noteq> ''None''"
    and "spec_parseable (to_float ext) r"
  shows "nl_to_numpy ext q =
           (Some (fst (first_two_triples (to_float ext) r)), Some (snd (first_two_triples (to_float ext) r)))"
  using assms parse_positions_ok [OF assms(3)]
  by (simp add: nl_to_numpy_def split: prod.splits)

subsection \<open>The concrete collaborators\<close>

lemma islands_ext_simps:
  "get_response islands_ext = echo_chat" "to_float islands_ext = small_float"
  "float_str islands_ext = small_str" "round2_str islands_ext = small_str"
  "array_sub islands_ext = exact_sub" "linalg_norm islands_ext = exact_norm"
  "read_mesh_from_file islands_ext = islands_reader"
  "signed_distance islands_ext = table_projection"
  "geodesicDistance islands_ext = triangle_solver"
  "write_html islands_ext = picky_writer"
  by (simp_all add: islands_ext_def)

subsection \<open>Claims about the extraction of positions\<close>

text \<open>
  Claim C10. For a response that is a string other than the sentinel, \<^verbatim>\<open>_nl_to_numpy\<close>
  succeeds exactly when the response, without its parentheses, splits at the commas into
  \<open>3k\<close> values that all convert to floats, with \<open>k \<ge> 2\<close>. It then returns the first two
  triples and ignores the others; in every other case (one triple only, a number of
  values that is no multiple of three, a value that does not convert) it returns the
  pair \<^verbatim>\<open>(None, None)\<close> and raises nothing.
\<close>

theorem nl_to_numpy_parse:
  assumes "get_response ext NAV_SYSTEM_PROMPT q = Some r" and "r \<noteq> ''None''"
  shows "nl_to_numpy ext q =
           (if spec_parseable (to_float ext) r
            then (Some (fst (first_two_triples (to_float ext) r)),
                  Some (snd (first_two_triples (to_float ext) r)))
            else (None, None))"
proof (cases "spec_parseable (to_float ext) r")
  case True
  with nl_to_numpy_ok [OF assms True] show ?thesis by simp
next
  case False
  with assms(1) have "nl_to_numpy ext q = (None, None)" by (intro nl_to_numpy_fail) auto
  with False show ?thesis by simp
qed

theorem nl_to_numpy_parse_witness:
  "get_response islands_ext NAV_SYSTEM_PROMPT ''(1,2,3),(4,5,6),(0,0,0)'' = Some ''(1,2,3),(4,5,6),(0,0,0)''
   \<and> ''(1,2,3),(4,5,6),(0,0,0)'' \<noteq> ''None''
   \<and> spec_parseable (to_float islands_ext) ''(1,2,3),(4,5,6),(0,0,0)''
   \<and> nl_to_numpy islands_ext ''(1,2,3),(4,5,6),(0,0,0)''
       = (Some (Fin 1, Fin 2, Fin 3), Some (Fin 4, Fin 5, Fin 6))
   \<and> get_response islands_ext NAV_SYSTEM_PROMPT ''(1,2,3)'' = Some ''(1,2,3)''
   \<and> \<not> spec_parseable (to_float islands_ext) ''(1,2,3)''
   \<and> nl_to_numpy islands_ext ''(1,2,3)'' = (None, None)"
proof -
  have h1: "get_response islands_ext NAV_SYSTEM_PROMPT ''(1,2,3),(4,5,6),(0,0,0)'' = Some ''(1,2,3),(4,5,6),(0,0,0)''"
    by (simp add: islands_ext_simps echo_chat_def)
  have h2: "''(1,2,3),(4,5,6),(0,0,0)'' \<noteq> ''None''" by simp
  have h3: "get_response islands_ext NAV_SYSTEM_PROMPT ''(1,2,3)'' = Some ''(1,2,3)''"
    by (simp add: islands_ext_simps echo_chat_def)
  have h4: "''(1,2,3)'' \<noteq> ''None''" by simp
  have p1: "spec_parseable (to_float islands_ext) ''(1,2,3),(4,5,6),(0,0,0)''"
    by (simp add: spec_parseable_def split_values_def remove_char_def islands_ext_simps small_float_def)
  have p2: "\<not> spec_parseable (to_float islands_ext) ''(1,2,3)''"
    by (simp add: spec_parseable_def split_values_def remove_char_def islands_ext_simps small_float_def)
  have t1: "first_two_triples (to_float islands_ext) ''(1,2,3),(4,5,6),(0,0,0)''
              = ((Fin 1, Fin 2, Fin 3), (Fin 4, Fin 5, Fin 6))"
    by (simp add: first_two_triples_def split_values_def remove_char_def islands_ext_simps small_float_def)
  show ?thesis
    using h1 h2 h3 p1 p2 t1 nl_to_numpy_parse [OF h1 h2] nl_to_numpy_parse [OF h3 h4] by simp
qed

text \<open>
  Claim C1. When the chat answers with the sentinel \<^verbatim>\<open>'None'\<close>, or with something that
  does not parse into two triples of floats (no string at all, or a string that is not
  parseable in the sense above), both \<^verbatim>\<open>get_actual_distance_from_query\<close> and
  \<^verbatim>\<open>get_straight_line_distance_from_query\<close> return the fixed fallback message; they raise
  nothing and leave the state as it was.
\<close>

theorem extraction_failure_fallback:
  assumes "get_response ext NAV_SYSTEM_PROMPT q = r"
    and "r = None \<or> r = Some ''None'' \<or> (\<exists>t. r = Some t \<and> \<not> spec_parseable (to_float ext) t)"
  shows "get_actual_distance_from_query ext s q = (Inr extraction_failed_msg, s)
         \<and> get_straight_line_distance_from_query ext s q = (Inr extraction_failed_msg, s)"
proof -
  have "nl_to_numpy ext q = (None, None)" using assms by (rule nl_to_numpy_fail)
  then show ?thesis
    by (simp add: get_actual_distance_from_query_def get_straight_line_distance_from_query_def)
qed

subsection \<open>Runs on the concrete mesh\<close>

lemmas run_defs = get_actual_distance_from_query_def get_straight_line_distance_from_query_def
  get_navigable_distance_def nl_to_numpy_def parse_positions_def split_values_def remove_char_def
  reshape3_def row_def snap_to_closest_vertex_def distance_from_def argmin_def
  navigable_response_def table_projection_def lone_def lone_faces_def
  visualize_navmesh_3d_def vis_filename_def marker_points_def
  islands_def islands_vertices_def islands_faces_def
  islands_ext_simps echo_chat_def small_float_def triangle_solver_def picky_writer_def
  distance_msg_def not_navigable_msg_def extraction_failed_msg_def Let_def

lemma run_near:
  "get_navigable_distance islands_ext (islands None) (Fin 0, Fin 0, Fin 0) (Fin 1, Fin 0, Fin 0)
     = (Inr ''The distance between specified points is 1.0 meters.'', islands None)"
  by (simp add: run_defs)

lemma run_far:
  "get_navigable_distance islands_ext (islands None) (Fin 0, Fin 0, Fin 0) (Fin 5, Fin 0, Fin 0)
     = (Inr ''The path between specified objects is not navigable considering obstacles.'', islands None)"
  by (simp add: run_defs)



lemma run_vis_far:
  "get_navigable_distance islands_ext (islands (Some ''out'')) (Fin 0, Fin 0, Fin 0) (Fin 5, Fin 0, Fin 0)
     = (Inl ValueError, islands (Some ''out''))"
  by (simp add: run_defs)

lemma run_nan:
  "get_navigable_distance islands_ext (islands None) (NaN, Fin 0, Fin 0) (Fin 1, Fin 0, Fin 0)
     = (Inr ''The distance between specified points is 1.0 meters.'', islands None)"
  by (simp add: run_defs)

lemma snap_tie:
  "snap_to_closest_vertex islands_ext (islands None) (Fin 2, Fin 2, Fin 0)
     = Inr ((Fin (1 / 2), Fin (1 / 2), Fin 0), (Fin 0, Fin 0, Fin 0), 0)"
  by (simp add: run_defs)

lemma snap_lone:
  "snap_to_closest_vertex islands_ext (lone None) (Fin 5, Fin 0, Fin 0)
     = Inr ((Fin 1, Fin 0, Fin 0), (Fin 1, Fin 0, Fin 0), 1)"
  by (simp add: run_defs)

lemma snap_nan:
  "snap_to_closest_vertex islands_ext (islands None) (NaN, Fin 0, Fin 0)
     = Inr ((NaN, Fin 0, Fin 0), (Fin 0, Fin 0, Fin 0), 0)"
  by (simp add: run_defs)

lemma snap_vertex1:
  "snap_to_closest_vertex islands_ext (islands None) (Fin 1, Fin 0, Fin 0)
     = Inr ((Fin 1, Fin 0, Fin 0), (Fin 1, Fin 0, Fin 0), 1)"
  by (simp add: run_defs)

lemma snap_vertex3:
  "snap_to_closest_vertex islands_ext (islands None) (Fin 5, Fin 0, Fin 0)
     = Inr ((Fin 5, Fin 0, Fin 0), (Fin 5, Fin 0, Fin 0), 3)"
  by (simp add: run_defs)

lemma snap_vertex0:
  "snap_to_closest_vertex islands_ext (islands None) (Fin 0, Fin 0, Fin 0)
     = Inr ((Fin 0, Fin 0, Fin 0), (Fin 0, Fin 0, Fin 0), 0)"
  by (simp add: run_defs)

lemma query_near:
  "get_actual_distance_from_query islands_ext (islands None) ''(0,0,0),(1,0,0)''
     = (Inr ''The distance between specified points is 1.0 meters.'', islands None)"
  by (simp add: run_defs)

lemma query_missing:
  "get_actual_distance_from_query islands_ext (islands (Some ''missing'')) ''(0,0,0),(1,0,0)''
     = (Inl OSError, islands (Some ''missing''))"
  by (simp add: run_defs)

lemma query_line:
  "get_straight_line_distance_from_query islands_ext (islands None) ''(0,0,0),(1,0,0)''
     = (Inr ''The distance between specified points is 1.0 meters.'', islands None)"
  by (simp add: run_defs)

theorem extraction_failure_fallback_witness:
  "get_response islands_ext NAV_SYSTEM_PROMPT ''None'' = Some ''None''
   \<and> get_actual_distance_from_query islands_ext (islands None) ''None''
       = (Inr ''The query does not contain information about the objects' positions or the positions could not be parsed.'', islands None)
   \<and> get_straight_line_distance_from_query islands_ext (islands None) ''None''
       = (Inr ''The query does not contain information about the objects' positions or the positions could not be parsed.'', islands None)
   \<and> get_response islands_ext NAV_SYSTEM_PROMPT ''(1,2,3)'' = Some ''(1,2,3)''
   \<and> \<not> spec_parseable (to_float islands_ext) ''(1,2,3)''
   \<and> get_actual_distance_from_query islands_ext (islands None) ''(1,2,3)''
       = (Inr extraction_failed_msg, islands None)
   \<and> get_straight_line_distance_from_query islands_ext (islands None) ''(1,2,3)''
       = (Inr extraction_failed_msg, islands None)"
proof -
  have h1: "get_response islands_ext NAV_SYSTEM_PROMPT ''None'' = Some ''None''"
    by (simp add: islands_ext_simps echo_chat_def)
  have h2: "Some ''None'' = None \<or> Some ''None'' = Some ''None''
            \<or> (\<exists>t. Some ''None'' = Some t \<and> \<not> spec_parseable (to_float islands_ext) t)"
    by simp
  have h3: "get_response islands_ext NAV_SYSTEM_PROMPT ''(1,2,3)'' = Some ''(1,2,3)''"
    by (simp add: islands_ext_simps echo_chat_def)
  have p: "\<not> spec_parseable (to_float islands_ext) ''(1,2,3)''"
    by (simp add: spec_parseable_def split_values_def remove_char_def islands_ext_simps small_float_def)
  then have h4: "Some ''(1,2,3)'' = None \<or> Some ''(1,2,3)'' = Some ''None''
            \<or> (\<exists>t. Some ''(1,2,3)'' = Some t \<and> \<not> spec_parseable (to_float islands_ext) t)"
    by simp
  show ?thesis
    using h1 h3 p extraction_failure_fallback [OF h1 h2, of "islands None"]
      extraction_failure_fallback [OF h3 h4, of "islands None"]
    by (simp add: extraction_failed_msg_def)
qed

subsection \<open>The order of floats and \<^verbatim>\<open>np.argmin\<close>\<close>

lemma fge_not_NaN: "fge x y \<Longrightarrow> x \<noteq> NaN \<and> y \<noteq> NaN"
  by (cases x; cases y) auto

lemma fge_refl: "x \<noteq> NaN \<Longrightarrow> fge x x"
  by (cases x) auto

lemma fge_total: "x \<noteq> NaN \<Longrightarrow> y \<noteq> NaN \<Longrightarrow> fge x y \<or> fge y x"
  by (cases x; cases y) auto

lemma fge_trans: "fge x y \<Longrightarrow> fge y z \<Longrightarrow> fge x z"
  by (cases x; cases y; cases z) auto

lemma argmin_loop_first_minimum:
  assumes "mi < length pre" and "pre ! mi = mp" and "NaN \<notin> set pre"
    and "\<forall>j < length pre. fge (pre ! j) mp"
    and "\<forall>j < mi. \<not> fge mp (pre ! j)"
  shows "first_minimum (pre @ xs) (argmin_loop xs (length pre) mp mi)"
  using assms
proof (induction xs arbitrary: pre mp mi)
  case Nil
  then show ?case by (auto simp: first_minimum_def in_set_conv_nth)
next
  case (Cons x xs)
  have mp: "mp \<noteq> NaN" using Cons.prems(1,2,3) nth_mem by fastforce
  show ?case
  proof (cases "fge x mp")
    case True
    then have x: "x \<noteq> NaN" using fge_not_NaN by blast
    have "first_minimum ((pre @ [x]) @ xs) (argmin_loop xs (length (pre @ [x])) mp mi)"
    proof (rule Cons.IH)
      show "mi < length (pre @ [x])" using Cons.prems(1) by simp
      show "(pre @ [x]) ! mi = mp" using Cons.prems(1,2) by (simp add: nth_append)
      show "NaN \<notin> set (pre @ [x])" using Cons.prems(3) x by auto
      show "\<forall>j<length (pre @ [x]). fge ((pre @ [x]) ! j) mp"
        using Cons.prems(4) True by (auto simp: nth_append less_Suc_eq)
      show "\<forall>j<mi. \<not> fge mp ((pre @ [x]) ! j)"
        using Cons.prems(1,5) by (auto simp: nth_append)
    qed
    with True show ?thesis by simp
  next
    case False
    show ?thesis
    proof (cases "x = NaN")
      case True
      have "first_minimum (pre @ NaN # xs) (length pre)"
        using Cons.prems(3) by (auto simp: first_minimum_def nth_append in_set_conv_nth)
      with False True show ?thesis by simp
    next
      case xn: False
      have lt: "fge mp x" using False fge_total [OF xn mp] by blast
      have "first_minimum ((pre @ [x]) @ xs) (argmin_loop xs (length (pre @ [x])) x (length pre))"
      proof (rule Cons.IH)
        show "length pre < length (pre @ [x])" by simp
        show "(pre @ [x]) ! length pre = x" by simp
        show "NaN \<notin> set (pre @ [x])" using Cons.prems(3) xn by auto
        show "\<forall>j<length (pre @ [x]). fge ((pre @ [x]) ! j) x"
          using Cons.prems(4) lt fge_trans fge_refl [OF xn]
          by (auto simp: nth_append less_Suc_eq)
        show "\<forall>j<length pre. \<not> fge x ((pre @ [x]) ! j)"
          using Cons.prems(4) False fge_trans by (auto simp: nth_append)
      qed
      with False xn show ?thesis by simp
    qed
  qed
qed

lemma argmin_first_minimum:
  assumes "ds \<noteq> []"
  shows "\<exists>i. argmin ds = Inr i \<and> first_minimum ds i"
proof -
  from assms obtain d rest where ds: "ds = d # rest" by (cases ds) auto
  show ?thesis
  proof (cases "d = NaN")
    case True
    then show ?thesis by (simp add: ds argmin_def first_minimum_def)
  next
    case False
    have "first_minimum ([d] @ rest) (argmin_loop rest (length [d]) d 0)"
      using False by (intro argmin_loop_first_minimum) (auto simp: fge_refl)
    with False show ?thesis by (simp add: ds argmin_def)
  qed
qed

lemma fge_antisym: "fge x y \<Longrightarrow> fge y x \<Longrightarrow> x = y"
  by (cases x; cases y) auto

lemma snap_result:
  assumes "vertices s \<noteq> []"
  shows "\<exists>i. snap_to_closest_vertex ext s p
               = Inr (signed_distance ext (vertices s) (faces s) p, vertices s ! i, i)
             \<and> first_minimum
                 (map (distance_from ext (signed_distance ext (vertices s) (faces s) p)) (vertices s)) i"
proof -
  let ?ds = "map (distance_from ext (signed_distance ext (vertices s) (faces s) p)) (vertices s)"
  have "?ds \<noteq> []" using assms by simp
  from argmin_first_minimum [OF this] obtain i where "argmin ?ds = Inr i" "first_minimum ?ds i"
    by blast
  then show ?thesis by (auto simp: snap_to_closest_vertex_def Let_def)
qed

lemma first_minimum_less: "first_minimum ds i \<Longrightarrow> i < length ds"
  by (simp add: first_minimum_def)

lemma faces_in_range_nonempty: "fs \<noteq> [] \<Longrightarrow> faces_in_range n fs \<Longrightarrow> 0 < n"
  by (cases fs) auto

subsection \<open>Claims about snapping\<close>

text \<open>
  Claim C6. On a mesh with at least one vertex, \<^verbatim>\<open>_snap_to_closest_vertex\<close> returns the
  point of the surface that libigl finds for the query point, and the vertex whose
  distance to that projected point (not to the query point), as numpy computes it, is
  the first minimum of the distances of all vertices: the smallest one, and among equal
  ones the lowest index. Where numpy's subtraction and norm are exact on the vertices,
  this is the first minimum of the Euclidean distances.
\<close>

theorem snap_first_closest_vertex:
  assumes "vertices s \<noteq> []"
  shows "\<exists>i. snap_to_closest_vertex ext s p
               = Inr (signed_distance ext (vertices s) (faces s) p, vertices s ! i, i)
             \<and> first_minimum
                 (map (\<lambda>v. linalg_norm ext
                              (array_sub ext v (signed_distance ext (vertices s) (faces s) p)))
                    (vertices s)) i
             \<and> ((\<forall>v \<in> set (vertices s).
                     linalg_norm ext (array_sub ext v (signed_distance ext (vertices s) (faces s) p))
                       = exact_norm (exact_sub v (signed_distance ext (vertices s) (faces s) p)))
                  \<longrightarrow> first_minimum
                        (map (\<lambda>v. exact_norm
                                     (exact_sub v (signed_distance ext (vertices s) (faces s) p)))
                           (vertices s)) i)"
proof -
  let ?cp = "signed_distance ext (vertices s) (faces s) p"
  from snap_result [OF assms, of ext p] obtain i where
    snap: "snap_to_closest_vertex ext s p = Inr (?cp, vertices s ! i, i)"
    and fm: "first_minimum (map (distance_from ext ?cp) (vertices s)) i"
    by blast
  have eq: "map (distance_from ext ?cp) (vertices s)
              = map (\<lambda>v. linalg_norm ext (array_sub ext v ?cp)) (vertices s)"
    by (simp add: distance_from_def)
  have ex: "map (\<lambda>v. linalg_norm ext (array_sub ext v ?cp)) (vertices s)
              = map (\<lambda>v. exact_norm (exact_sub v ?cp)) (vertices s)"
    if "\<forall>v \<in> set (vertices s).
          linalg_norm ext (array_sub ext v ?cp) = exact_norm (exact_sub v ?cp)"
    using that by (intro map_cong) auto
  from fm have fm2: "first_minimum
                       (map (\<lambda>v. linalg_norm ext (array_sub ext v ?cp)) (vertices s)) i"
    by (simp only: eq)
  have fm3: "(\<forall>v \<in> set (vertices s).
                linalg_norm ext (array_sub ext v ?cp) = exact_norm (exact_sub v ?cp))
             \<longrightarrow> first_minimum (map (\<lambda>v. exact_norm (exact_sub v ?cp)) (vertices s)) i"
  proof
    assume h: "\<forall>v \<in> set (vertices s).
                 linalg_norm ext (array_sub ext v ?cp) = exact_norm (exact_sub v ?cp)"
    from fm2 show "first_minimum (map (\<lambda>v. exact_norm (exact_sub v ?cp)) (vertices s)) i"
      by (simp only: ex [OF h])
  qed
  from snap fm2 fm3 show ?thesis by blast
qed

theorem snap_first_closest_vertex_witness:
  "vertices (islands None) \<noteq> []
   \<and> signed_distance islands_ext (vertices (islands None)) (faces (islands None)) (Fin 2, Fin 2, Fin 0)
       = (Fin (1 / 2), Fin (1 / 2), Fin 0)
   \<and> snap_to_closest_vertex islands_ext (islands None) (Fin 2, Fin 2, Fin 0)
       = Inr ((Fin (1 / 2), Fin (1 / 2), Fin 0), (Fin 0, Fin 0, Fin 0), 0)
   \<and> first_minimum
        (map (\<lambda>v. exact_norm (exact_sub v (Fin (1 / 2), Fin (1 / 2), Fin 0)))
           (vertices (islands None))) 0
   \<and> exact_norm (exact_sub (vertices (islands None) ! 0) (Fin (1 / 2), Fin (1 / 2), Fin 0))
       = exact_norm (exact_sub (vertices (islands None) ! 1) (Fin (1 / 2), Fin (1 / 2), Fin 0))
   \<and> argmin (map (\<lambda>v. exact_norm (exact_sub v (Fin 2, Fin 2, Fin 0))) (vertices (islands None)))
       = Inr 1"
proof -
  have ne: "vertices (islands None) \<noteq> []" by (simp add: islands_def islands_vertices_def)
  have sd: "signed_distance islands_ext (vertices (islands None)) (faces (islands None)) (Fin 2, Fin 2, Fin 0)
              = (Fin (1 / 2), Fin (1 / 2), Fin 0)"
    by (simp add: islands_ext_simps table_projection_def)
  have exact: "\<forall>v \<in> set (vertices (islands None)).
                 linalg_norm islands_ext (array_sub islands_ext v (Fin (1 / 2), Fin (1 / 2), Fin 0))
                   = exact_norm (exact_sub v (Fin (1 / 2), Fin (1 / 2), Fin 0))"
    by (simp add: islands_ext_simps)
  from snap_first_closest_vertex [OF ne, of islands_ext "(Fin 2, Fin 2, Fin 0)"]
  obtain i where i: "snap_to_closest_vertex islands_ext (islands None) (Fin 2, Fin 2, Fin 0)
                       = Inr ((Fin (1 / 2), Fin (1 / 2), Fin 0), vertices (islands None) ! i, i)"
    and fm: "(\<forall>v \<in> set (vertices (islands None)).
                 linalg_norm islands_ext (array_sub islands_ext v (Fin (1 / 2), Fin (1 / 2), Fin 0))
                   = exact_norm (exact_sub v (Fin (1 / 2), Fin (1 / 2), Fin 0)))
             \<longrightarrow> first_minimum
                   (map (\<lambda>v. exact_norm (exact_sub v (Fin (1 / 2), Fin (1 / 2), Fin 0)))
                      (vertices (islands None))) i"
    unfolding sd by blast
  from i have "i = 0" by (simp add: snap_tie)
  with fm exact have "first_minimum
                  (map (\<lambda>v. exact_norm (exact_sub v (Fin (1 / 2), Fin (1 / 2), Fin 0)))
                     (vertices (islands None))) 0"
    by blast
  moreover have "exact_norm (exact_sub (vertices (islands None) ! 0) (Fin (1 / 2), Fin (1 / 2), Fin 0))
       = exact_norm (exact_sub (vertices (islands None) ! 1) (Fin (1 / 2), Fin (1 / 2), Fin 0))"
    by (simp add: islands_def islands_vertices_def)
  moreover have "argmin (map (\<lambda>v. exact_norm (exact_sub v (Fin 2, Fin 2, Fin 0)))
                           (vertices (islands None))) = Inr 1"
    by (simp add: islands_def islands_vertices_def argmin_def)
  ultimately show ?thesis using ne sd snap_tie by simp
qed

text \<open>
  Claim C7, as stated, fails. The mesh with the first triangle only has a face, and its
  indices are vertex indices; vertex 3 at \<open>(5, 0, 0)\<close> is on no face. For the query point
  \<open>(5, 0, 0)\<close> the closest point of the surface is \<open>(1, 0, 0)\<close>, and the vertex returned is
  vertex 1 there, four units away from the query point: not the vertex the point
  coincides with.
\<close>

theorem snap_lone_vertex_counterexample:
  "faces (lone None) \<noteq> []
   \<and> faces_in_range (length (vertices (lone None))) (faces (lone None))
   \<and> vertices (lone None) ! 3 = (Fin 5, Fin 0, Fin 0)
   \<and> snap_to_closest_vertex islands_ext (lone None) (Fin 5, Fin 0, Fin 0)
       = Inr ((Fin 1, Fin 0, Fin 0), (Fin 1, Fin 0, Fin 0), 1)
   \<and> (Fin 1, Fin 0, Fin 0) \<noteq> (Fin 5 :: pyfloat, Fin 0 :: pyfloat, Fin 0 :: pyfloat)
   \<and> exact_norm (exact_sub (Fin 1, Fin 0, Fin 0) (Fin 5, Fin 0, Fin 0)) \<noteq> Fin 0"
  by (simp add: snap_lone) (simp add: lone_def lone_faces_def islands_vertices_def)

text \<open>
  Claim C7, amended. On a mesh with at least one face whose indices are vertex indices,
  \<^verbatim>\<open>_snap_to_closest_vertex\<close> fails for no query point, near or far: it returns the point
  of the surface that libigl finds and an index of the vertex array. When the query
  point is a vertex, libigl returns it as its own closest point (as for a vertex of a
  face), and numpy computes distances from it that are not below zero, and zero to
  itself, then the vertex returned is at computed distance zero from the query point,
  at the lowest index with that distance; it has the position of the query point when
  no other position is at computed distance zero.
\<close>

theorem snap_never_fails:
  assumes "faces s \<noteq> []" and "faces_in_range (length (vertices s)) (faces s)"
  shows "\<exists>i. snap_to_closest_vertex ext s p
               = Inr (signed_distance ext (vertices s) (faces s) p, vertices s ! i, i)
            \<and> i < length (vertices s)
            \<and> (\<forall>k. k < length (vertices s) \<and> vertices s ! k = p
                     \<and> signed_distance ext (vertices s) (faces s) p = p
                     \<and> (\<forall>v \<in> set (vertices s). fge (distance_from ext p v) (Fin 0))
                     \<and> distance_from ext p p = Fin 0
                   \<longrightarrow> distance_from ext p (vertices s ! i) = Fin 0 \<and> i \<le> k
                       \<and> (\<forall>j < i. distance_from ext p (vertices s ! j) \<noteq> Fin 0)
                       \<and> ((\<forall>v \<in> set (vertices s). distance_from ext p v = Fin 0 \<longrightarrow> v = p)
                            \<longrightarrow> vertices s ! i = p))"
proof -
  let ?vs = "vertices s"
  let ?cp = "signed_distance ext ?vs (faces s) p"
  let ?ds = "map (distance_from ext ?cp) ?vs"
  have ne: "?vs \<noteq> []" using faces_in_range_nonempty [OF assms] by simp
  from snap_result [OF ne, of ext p]
  obtain i where snap: "snap_to_closest_vertex ext s p = Inr (?cp, ?vs ! i, i)"
    and fm: "first_minimum ?ds i" by blast
  from fm have "i < length ?ds" by (rule first_minimum_less)
  then have i: "i < length ?vs" by simp
  have "distance_from ext p (?vs ! i) = Fin 0 \<and> i \<le> k
        \<and> (\<forall>j < i. distance_from ext p (?vs ! j) \<noteq> Fin 0)
        \<and> ((\<forall>v \<in> set ?vs. distance_from ext p v = Fin 0 \<longrightarrow> v = p) \<longrightarrow> ?vs ! i = p)"
    if k: "k < length ?vs" and vk: "?vs ! k = p" and cp: "?cp = p"
      and nonneg: "\<forall>v \<in> set ?vs. fge (distance_from ext p v) (Fin 0)"
      and self: "distance_from ext p p = Fin 0" for k
  proof -
    have di: "?ds ! i = distance_from ext p (?vs ! i)" using i cp by simp
    have dk: "?ds ! k = Fin 0" using k vk self cp by simp
    have lk: "k < length ?ds" using k by simp
    have ge0: "fge (?ds ! i) (Fin 0)" using nonneg i di by simp
    then have nn: "?ds ! i \<noteq> NaN" using fge_not_NaN by blast
    from fm have "\<forall>j < length ?ds. fge (?ds ! j) (?ds ! i) \<or> ?ds ! i = NaN"
      unfolding first_minimum_def by blast
    with lk nn have "fge (?ds ! k) (?ds ! i)" by blast
    with dk have "fge (Fin 0) (?ds ! i)" by simp
    with ge0 have zero: "?ds ! i = Fin 0" by (rule fge_antisym)
    have ik: "i \<le> k"
    proof (rule ccontr)
      assume "\<not> i \<le> k"
      then have "k < i" by simp
      with fm have "\<not> fge (?ds ! i) (?ds ! k)" unfolding first_minimum_def by blast
      with dk zero show False by simp
    qed
    have before: "distance_from ext p (?vs ! j) \<noteq> Fin 0" if "j < i" for j
    proof
      assume z: "distance_from ext p (?vs ! j) = Fin 0"
      from that i have "?ds ! j = distance_from ext p (?vs ! j)" using cp by simp
      with z have "?ds ! j = Fin 0" by simp
      moreover from fm that have "\<not> fge (?ds ! i) (?ds ! j)"
        unfolding first_minimum_def by blast
      ultimately show False using zero by simp
    qed
    have same: "?vs ! i = p" if "\<forall>v \<in> set ?vs. distance_from ext p v = Fin 0 \<longrightarrow> v = p"
      using that i zero di by (metis nth_mem)
    from zero di ik before same show ?thesis by simp
  qed
  with snap i show ?thesis by blast
qed

theorem snap_never_fails_witness:
  "faces (islands None) \<noteq> []
   \<and> faces_in_range (length (vertices (islands None))) (faces (islands None))
   \<and> 3 < length (vertices (islands None))
   \<and> vertices (islands None) ! 3 = (Fin 5, Fin 0, Fin 0)
   \<and> signed_distance islands_ext (vertices (islands None)) (faces (islands None)) (Fin 5, Fin 0, Fin 0)
       = (Fin 5, Fin 0, Fin 0)
   \<and> list_all (\<lambda>v. fge (distance_from islands_ext (Fin 5, Fin 0, Fin 0) v) (Fin 0))
         (vertices (islands None))
   \<and> distance_from islands_ext (Fin 5, Fin 0, Fin 0) (Fin 5, Fin 0, Fin 0) = Fin 0
   \<and> filter (\<lambda>v. distance_from islands_ext (Fin 5, Fin 0, Fin 0) v = Fin 0)
         (vertices (islands None)) = [(Fin 5, Fin 0, Fin 0)]
   \<and> snap_to_closest_vertex islands_ext (islands None) (Fin 5, Fin 0, Fin 0)
       = Inr ((Fin 5, Fin 0, Fin 0), (Fin 5, Fin 0, Fin 0), 3)
   \<and> (\<exists>i. i \<le> 3 \<and> vertices (islands None) ! i = (Fin 5, Fin 0, Fin 0)
          \<and> distance_from islands_ext (Fin 5, Fin 0, Fin 0) (vertices (islands None) ! i) = Fin 0)"
proof -
  have h1: "faces (islands None) \<noteq> []" by (simp add: islands_def islands_faces_def)
  have h2: "faces_in_range (length (vertices (islands None))) (faces (islands None))"
    by (simp add: islands_def islands_faces_def islands_vertices_def)
  have k: "3 < length (vertices (islands None))
           \<and> vertices (islands None) ! 3 = (Fin 5, Fin 0, Fin 0)
           \<and> signed_distance islands_ext (vertices (islands None)) (faces (islands None)) (Fin 5, Fin 0, Fin 0)
               = (Fin 5, Fin 0, Fin 0)
           \<and> (\<forall>v \<in> set (vertices (islands None)).
                 fge (distance_from islands_ext (Fin 5, Fin 0, Fin 0) v) (Fin 0))
           \<and> distance_from islands_ext (Fin 5, Fin 0, Fin 0) (Fin 5, Fin 0, Fin 0) = Fin 0"
    by (simp add: islands_def islands_vertices_def islands_faces_def lone_faces_def
          islands_ext_simps table_projection_def distance_from_def)
  have only: "\<forall>v \<in> set (vertices (islands None)).
          distance_from islands_ext (Fin 5, Fin 0, Fin 0) v = Fin 0 \<longrightarrow> v = (Fin 5, Fin 0, Fin 0)"
    by (simp add: islands_def islands_vertices_def islands_ext_simps distance_from_def)
  from snap_never_fails [OF h1 h2, of islands_ext "(Fin 5, Fin 0, Fin 0)"] k only
  have "\<exists>i. i \<le> 3 \<and> vertices (islands None) ! i = (Fin 5, Fin 0, Fin 0)
          \<and> distance_from islands_ext (Fin 5, Fin 0, Fin 0) (vertices (islands None) ! i) = Fin 0"
    by blast
  moreover have "list_all (\<lambda>v. fge (distance_from islands_ext (Fin 5, Fin 0, Fin 0) v) (Fin 0))
                   (vertices (islands None))"
    using k by (simp add: list_all_iff)
  moreover have "filter (\<lambda>v. distance_from islands_ext (Fin 5, Fin 0, Fin 0) v = Fin 0)
                   (vertices (islands None)) = [(Fin 5, Fin 0, Fin 0)]"
    by (simp add: islands_def islands_vertices_def islands_ext_simps distance_from_def)
  ultimately show ?thesis using h1 h2 k snap_vertex3 by blast
qed

subsection \<open>The navigable distance, step by step\<close>

lemma nl_to_numpy_cases:
  "nl_to_numpy ext q = (None, None) \<or> (\<exists>a b. nl_to_numpy ext q = (Some a, Some b))"
  by (auto simp: nl_to_numpy_def Let_def split: sum.splits prod.splits)

lemma get_navigable_distance_Inr:
  assumes "get_navigable_distance ext s a b = (Inr r, s')"
  shows "\<exists>cs vs i cg vg j.
           snap_to_closest_vertex ext s a = Inr (cs, vs, i)
         \<and> snap_to_closest_vertex ext s b = Inr (cg, vg, j)
         \<and> r = navigable_response ext (geodesicDistance ext (vertices s) (faces s) i j)"
  using assms
  by (auto simp: get_navigable_distance_def Let_def split: sum.splits prod.splits option.splits)

lemma get_navigable_distance_snapped:
  assumes "snap_to_closest_vertex ext s a = Inr (cs, vs, i)"
    and "snap_to_closest_vertex ext s b = Inr (cg, vg, j)"
  shows "get_navigable_distance ext s a b =
           (case vis_dirpath s of
              None \<Rightarrow> (Inr (navigable_response ext (geodesicDistance ext (vertices s) (faces s) i j)), s)
            | Some dir \<Rightarrow>
                (case visualize_navmesh_3d ext (vertices s) (faces s) (vis_filename ext dir a b)
                        (map_option snd (geodesicDistance ext (vertices s) (faces s) i j))
                        (marker_points a b cs cg vs vg) (html_files s) of
                   Inl e \<Rightarrow> (Inl e, s)
                 | Inr files \<Rightarrow>
                     (Inr (navigable_response ext (geodesicDistance ext (vertices s) (faces s) i j)),
                      s\<lparr>html_files := files\<rparr>)))"
  using assms by (simp add: get_navigable_distance_def Let_def)


lemma snap_total:
  assumes "vertices s \<noteq> []"
  shows "\<exists>i. snap_to_closest_vertex ext s p
               = Inr (signed_distance ext (vertices s) (faces s) p, vertices s ! i, i)
             \<and> i < length (vertices s)
             \<and> first_minimum
                 (map (distance_from ext (signed_distance ext (vertices s) (faces s) p)) (vertices s)) i"
proof -
  from snap_result [OF assms, of ext p] obtain i where
    snap: "snap_to_closest_vertex ext s p
       = Inr (signed_distance ext (vertices s) (faces s) p, vertices s ! i, i)"
    and fm: "first_minimum
           (map (distance_from ext (signed_distance ext (vertices s) (faces s) p)) (vertices s)) i"
    by blast
  from fm have "i < length (vertices s)" using first_minimum_less by fastforce
  with snap fm show ?thesis by blast
qed

lemma get_navigable_distance_frame:
  "vertices (snd (get_navigable_distance ext s a b)) = vertices s
   \<and> faces (snd (get_navigable_distance ext s a b)) = faces s
   \<and> vis_dirpath (snd (get_navigable_distance ext s a b)) = vis_dirpath s"
  by (auto simp: get_navigable_distance_def Let_def split: sum.splits prod.splits option.splits)


lemma islands_component_low: "same_component islands_faces i k \<Longrightarrow> i < 3 \<Longrightarrow> k < 3"
proof (induction rule: same_component.induct)
  case (refl i)
  then show ?case by simp
next
  case (step i j k)
  then show ?case by (auto simp: islands_faces_def)
qed

lemma islands_split: "\<not> same_component islands_faces 0 3"
  using islands_component_low [of 0 3] by auto

lemma run_query_frame:
  "vertices (snd (run_query ext s q)) = vertices s \<and> faces (snd (run_query ext s q)) = faces s"
proof (cases q)
  case (Actual x)
  then show ?thesis
    using nl_to_numpy_cases [of ext x] get_navigable_distance_frame [of ext s]
    by (auto simp: get_actual_distance_from_query_def)
next
  case (Line x)
  then show ?thesis
    using nl_to_numpy_cases [of ext x]
    by (auto simp: get_straight_line_distance_from_query_def)
qed

lemma run_queries_frame:
  "vertices (run_queries ext s qs) = vertices s \<and> faces (run_queries ext s qs) = faces s"
  by (induction qs arbitrary: s) (simp_all add: run_query_frame)

subsection \<open>Claims about the answers\<close>

text \<open>
  Claim C5. Every answer that \<^verbatim>\<open>get_actual_distance_from_query\<close> returns is one of three
  texts: the fallback message when no two positions were extracted; otherwise, for the
  two snapped vertices, the message that the path is not navigable when the solver gives
  no path (no result, or an empty path), and the distance message with the solver's
  length when it gives a path.
\<close>

theorem actual_distance_three_messages:
  assumes "get_actual_distance_from_query ext s q = (Inr r, s')"
  shows "(r = ''The query does not contain information about the objects' positions or the positions could not be parsed.''
          \<or> r = ''The path between specified objects is not navigable considering obstacles.''
          \<or> (\<exists>d. r = ''The distance between specified points is '' @ float_str ext d @ '' meters.''))
       \<and> ((nl_to_numpy ext q = (None, None)
            \<and> r = ''The query does not contain information about the objects' positions or the positions could not be parsed.'')
          \<or> (\<exists>start goal cs vs i cg vg j.
                nl_to_numpy ext q = (Some start, Some goal)
              \<and> snap_to_closest_vertex ext s start = Inr (cs, vs, i)
              \<and> snap_to_closest_vertex ext s goal = Inr (cg, vg, j)
              \<and> (case geodesicDistance ext (vertices s) (faces s) i j of
                    None \<Rightarrow>
                      r = ''The path between specified objects is not navigable considering obstacles.''
                  | Some (d, path) \<Rightarrow>
                      if path = []
                      then r = ''The path between specified objects is not navigable considering obstacles.''
                      else r = ''The distance between specified points is '' @ float_str ext d
                                 @ '' meters.'')))"
proof -
  from nl_to_numpy_cases [of ext q] show ?thesis
  proof
    assume n: "nl_to_numpy ext q = (None, None)"
    with assms have "r = extraction_failed_msg"
      by (simp add: get_actual_distance_from_query_def)
    with n show ?thesis by (simp add: extraction_failed_msg_def)
  next
    assume "\<exists>a b. nl_to_numpy ext q = (Some a, Some b)"
    then obtain a b where ab: "nl_to_numpy ext q = (Some a, Some b)" by blast
    with assms have "get_navigable_distance ext s a b = (Inr r, s')"
      by (simp add: get_actual_distance_from_query_def)
    from get_navigable_distance_Inr [OF this]
    obtain cs vs i cg vg j where sa: "snap_to_closest_vertex ext s a = Inr (cs, vs, i)"
      and sb: "snap_to_closest_vertex ext s b = Inr (cg, vg, j)"
      and r: "r = navigable_response ext (geodesicDistance ext (vertices s) (faces s) i j)"
      by blast
    have c: "(case geodesicDistance ext (vertices s) (faces s) i j of
                None \<Rightarrow>
                  r = ''The path between specified objects is not navigable considering obstacles.''
              | Some (d, path) \<Rightarrow>
                  if path = []
                  then r = ''The path between specified objects is not navigable considering obstacles.''
                  else r = ''The distance between specified points is '' @ float_str ext d
                             @ '' meters.'')"
      by (simp add: r navigable_response_def not_navigable_msg_def distance_msg_def
               split: option.splits prod.splits)
    then have "r = ''The path between specified objects is not navigable considering obstacles.''
               \<or> (\<exists>d. r = ''The distance between specified points is '' @ float_str ext d
                            @ '' meters.'')"
      by (auto split: option.splits prod.splits if_splits)
    with ab sa sb c show ?thesis by blast
  qed
qed

theorem actual_distance_three_messages_witness:
  "get_actual_distance_from_query islands_ext (islands None) ''(0,0,0),(1,0,0)''
     = (Inr ''The distance between specified points is 1.0 meters.'', islands None)
   \<and> (\<exists>d. ''The distance between specified points is 1.0 meters.''
            = ''The distance between specified points is '' @ float_str islands_ext d @ '' meters.'')
   \<and> get_actual_distance_from_query islands_ext (islands None) ''(0,0,0),(5,0,0)''
     = (Inr ''The path between specified objects is not navigable considering obstacles.'', islands None)
   \<and> get_actual_distance_from_query islands_ext (islands None) ''None''
     = (Inr ''The query does not contain information about the objects' positions or the positions could not be parsed.'',
        islands None)"
proof -
  have far: "get_actual_distance_from_query islands_ext (islands None) ''(0,0,0),(5,0,0)''
     = (Inr ''The path between specified objects is not navigable considering obstacles.'', islands None)"
    by (simp add: run_defs)
  have none: "get_actual_distance_from_query islands_ext (islands None) ''None''
     = (Inr ''The query does not contain information about the objects' positions or the positions could not be parsed.'',
        islands None)"
    by (simp add: run_defs)
  have "\<exists>d. ''The distance between specified points is 1.0 meters.''
            = ''The distance between specified points is '' @ float_str islands_ext d @ '' meters.''"
    using actual_distance_three_messages [OF query_near] by simp
  then show ?thesis
    using query_near far none actual_distance_three_messages [OF far]
      actual_distance_three_messages [OF none]
    by simp
qed

text \<open>
  Claim C8, as stated, fails. On the mesh of two separate triangles, vertices 0 and 3 lie
  in different connected components, and the query between them returns the very message
  of a path blocked by obstacles: nothing in the answer tells the two causes apart.
\<close>

theorem components_not_distinguished_counterexample:
  "\<not> same_component (faces (islands None)) 0 3
   \<and> snap_to_closest_vertex islands_ext (islands None) (Fin 0, Fin 0, Fin 0)
       = Inr ((Fin 0, Fin 0, Fin 0), (Fin 0, Fin 0, Fin 0), 0)
   \<and> snap_to_closest_vertex islands_ext (islands None) (Fin 5, Fin 0, Fin 0)
       = Inr ((Fin 5, Fin 0, Fin 0), (Fin 5, Fin 0, Fin 0), 3)
   \<and> get_navigable_distance islands_ext (islands None) (Fin 0, Fin 0, Fin 0) (Fin 5, Fin 0, Fin 0)
       = (Inr ''The path between specified objects is not navigable considering obstacles.'',
          islands None)"
  using islands_split by (simp add: snap_vertex0 snap_vertex3 run_far) (simp add: islands_def)

text \<open>
  Claim C8, amended. Whenever the solver gives no path between the two snapped vertices
  (no result at all, or an empty path), whatever the cause, an answer that
  \<^verbatim>\<open>_get_navigable_distance\<close> returns is the one message that the path is not
  navigable.
\<close>

theorem no_path_one_message:
  assumes "snap_to_closest_vertex ext s a = Inr (cs, vs, i)"
    and "snap_to_closest_vertex ext s b = Inr (cg, vg, j)"
    and "geodesicDistance ext (vertices s) (faces s) i j = None
         \<or> (\<exists>d. geodesicDistance ext (vertices s) (faces s) i j = Some (d, []))"
    and "get_navigable_distance ext s a b = (Inr r, s')"
  shows "r = not_navigable_msg"
proof -
  from get_navigable_distance_Inr [OF assms(4)] assms(1,2)
  have "r = navigable_response ext (geodesicDistance ext (vertices s) (faces s) i j)" by auto
  with assms(3) show ?thesis by (auto simp: navigable_response_def)
qed

theorem no_path_one_message_witness:
  "snap_to_closest_vertex islands_ext (islands None) (Fin 0, Fin 0, Fin 0)
       = Inr ((Fin 0, Fin 0, Fin 0), (Fin 0, Fin 0, Fin 0), 0)
   \<and> snap_to_closest_vertex islands_ext (islands None) (Fin 5, Fin 0, Fin 0)
       = Inr ((Fin 5, Fin 0, Fin 0), (Fin 5, Fin 0, Fin 0), 3)
   \<and> geodesicDistance islands_ext (vertices (islands None)) (faces (islands None)) 0 3 = Some (Fin 0, [])
   \<and> get_navigable_distance islands_ext (islands None) (Fin 0, Fin 0, Fin 0) (Fin 5, Fin 0, Fin 0)
       = (Inr ''The path between specified objects is not navigable considering obstacles.'',
          islands None)
   \<and> ''The path between specified objects is not navigable considering obstacles.'' = not_navigable_msg"
proof -
  have g: "geodesicDistance islands_ext (vertices (islands None)) (faces (islands None)) 0 3
             = Some (Fin 0, [])"
    by (simp add: run_defs)
  then have g': "geodesicDistance islands_ext (vertices (islands None)) (faces (islands None)) 0 3 = None
         \<or> (\<exists>d. geodesicDistance islands_ext (vertices (islands None)) (faces (islands None)) 0 3
                  = Some (d, []))"
    by simp
  from no_path_one_message [OF snap_vertex0 snap_vertex3 g' run_far]
  show ?thesis using g snap_vertex0 snap_vertex3 run_far by simp
qed

subsection \<open>Claims about the visualizer and the state\<close>




text \<open>
  Claim C3, as stated, fails. There is no check of the input points: with a start point
  holding \<open>NaN\<close> the operation snaps, solves and returns an answer.
\<close>

theorem navigable_distance_nan_counterexample:
  "\<not> finite_point (NaN, Fin 0, Fin 0)
   \<and> get_navigable_distance islands_ext (islands None) (NaN, Fin 0, Fin 0) (Fin 1, Fin 0, Fin 0)
       = (Inr ''The distance between specified points is 1.0 meters.'', islands None)"
  by (simp add: run_nan)

text \<open>
  Claim C3, amended. On a mesh with at least one vertex and without a visualization
  directory, \<^verbatim>\<open>_get_navigable_distance\<close> fails for no pair of points, finite or not: it
  snaps the start and the goal, each to the first vertex closest to its projected
  point, calls the solver on the two indices found, and returns the answer for what the
  solver gives on them.
\<close>

theorem navigable_distance_no_input_check:
  assumes "vertices s \<noteq> []" and "vis_dirpath s = None"
  shows "\<exists>i j. snap_to_closest_vertex ext s a
                 = Inr (signed_distance ext (vertices s) (faces s) a, vertices s ! i, i)
           \<and> snap_to_closest_vertex ext s b
                 = Inr (signed_distance ext (vertices s) (faces s) b, vertices s ! j, j)
           \<and> i < length (vertices s) \<and> j < length (vertices s)
           \<and> first_minimum
               (map (distance_from ext (signed_distance ext (vertices s) (faces s) a)) (vertices s)) i
           \<and> first_minimum
               (map (distance_from ext (signed_distance ext (vertices s) (faces s) b)) (vertices s)) j
           \<and> get_navigable_distance ext s a b
               = (Inr (navigable_response ext (geodesicDistance ext (vertices s) (faces s) i j)), s)"
proof -
  from snap_total [OF assms(1), of ext a] obtain i where
    sa: "snap_to_closest_vertex ext s a
           = Inr (signed_distance ext (vertices s) (faces s) a, vertices s ! i, i)"
    and i: "i < length (vertices s)"
    and fi: "first_minimum
               (map (distance_from ext (signed_distance ext (vertices s) (faces s) a)) (vertices s)) i"
    by blast
  from snap_total [OF assms(1), of ext b] obtain j where
    sb: "snap_to_closest_vertex ext s b
           = Inr (signed_distance ext (vertices s) (faces s) b, vertices s ! j, j)"
    and j: "j < length (vertices s)"
    and fj: "first_minimum
               (map (distance_from ext (signed_distance ext (vertices s) (faces s) b)) (vertices s)) j"
    by blast
  from get_navigable_distance_snapped [OF sa sb] assms(2)
  have "get_navigable_distance ext s a b
          = (Inr (navigable_response ext (geodesicDistance ext (vertices s) (faces s) i j)), s)"
    by simp
  with sa sb i j fi fj show ?thesis by blast
qed

theorem navigable_distance_no_input_check_witness:
  "vertices (islands None) \<noteq> [] \<and> vis_dirpath (islands None) = None
   \<and> \<not> finite_point (NaN, Fin 0, Fin 0)
   \<and> snap_to_closest_vertex islands_ext (islands None) (NaN, Fin 0, Fin 0)
       = Inr ((NaN, Fin 0, Fin 0), (Fin 0, Fin 0, Fin 0), 0)
   \<and> snap_to_closest_vertex islands_ext (islands None) (Fin 1, Fin 0, Fin 0)
       = Inr ((Fin 1, Fin 0, Fin 0), (Fin 1, Fin 0, Fin 0), 1)
   \<and> get_navigable_distance islands_ext (islands None) (NaN, Fin 0, Fin 0) (Fin 1, Fin 0, Fin 0)
       = (Inr (navigable_response islands_ext
                 (geodesicDistance islands_ext (vertices (islands None)) (faces (islands None)) 0 1)),
          islands None)
   \<and> navigable_response islands_ext
         (geodesicDistance islands_ext (vertices (islands None)) (faces (islands None)) 0 1)
       = ''The distance between specified points is 1.0 meters.''"
proof -
  have h1: "vertices (islands None) \<noteq> []" by (simp add: islands_def islands_vertices_def)
  have h2: "vis_dirpath (islands None) = None" by (simp add: islands_def)
  from navigable_distance_no_input_check
         [OF h1 h2, of islands_ext "(NaN, Fin 0, Fin 0)" "(Fin 1, Fin 0, Fin 0)"]
  obtain i j where
    sa: "snap_to_closest_vertex islands_ext (islands None) (NaN, Fin 0, Fin 0)
           = Inr (signed_distance islands_ext (vertices (islands None)) (faces (islands None))
                    (NaN, Fin 0, Fin 0), vertices (islands None) ! i, i)"
    and sb: "snap_to_closest_vertex islands_ext (islands None) (Fin 1, Fin 0, Fin 0)
           = Inr (signed_distance islands_ext (vertices (islands None)) (faces (islands None))
                    (Fin 1, Fin 0, Fin 0), vertices (islands None) ! j, j)"
    and g: "get_navigable_distance islands_ext (islands None) (NaN, Fin 0, Fin 0) (Fin 1, Fin 0, Fin 0)
              = (Inr (navigable_response islands_ext
                        (geodesicDistance islands_ext (vertices (islands None)) (faces (islands None)) i j)),
                 islands None)"
    by blast
  from sa have i: "i = 0" by (simp add: snap_nan)
  from sb have j: "j = 1" by (simp add: snap_vertex1)
  have r: "navigable_response islands_ext
             (geodesicDistance islands_ext (vertices (islands None)) (faces (islands None)) 0 1)
           = ''The distance between specified points is 1.0 meters.''"
    by (simp add: run_defs)
  from g i j h1 h2 r snap_nan snap_vertex1 show ?thesis by simp
qed

text \<open>
  Claim C4, as stated, fails. The same query that returns a distance without a
  visualization directory raises \<^verbatim>\<open>OSError\<close> when the visualizer cannot write its file:
  the distance already computed is lost.
\<close>

theorem visualizer_failure_counterexample:
  "get_actual_distance_from_query islands_ext (islands None) ''(0,0,0),(1,0,0)''
     = (Inr ''The distance between specified points is 1.0 meters.'', islands None)
   \<and> get_actual_distance_from_query islands_ext (islands (Some ''missing'')) ''(0,0,0),(1,0,0)''
       = (Inl OSError, islands (Some ''missing''))"
  by (simp add: query_near query_missing)

text \<open>
  Claim C4, amended. For a query whose two positions were extracted and snapped: without
  a visualization directory the visualizer is not called and the answer is returned;
  with a directory, what the visualizer raises is raised by the query in place of the
  answer, and the state is as it was.
\<close>

theorem visualizer_failure_propagates:
  assumes "nl_to_numpy ext q = (Some start, Some goal)"
    and "snap_to_closest_vertex ext s start = Inr (cs, vs, i)"
    and "snap_to_closest_vertex ext s goal = Inr (cg, vg, j)"
  shows "(vis_dirpath s = None \<longrightarrow>
            get_actual_distance_from_query ext s q
              = (Inr (navigable_response ext (geodesicDistance ext (vertices s) (faces s) i j)), s))
       \<and> (\<forall>dir e. vis_dirpath s = Some dir
              \<and> visualize_navmesh_3d ext (vertices s) (faces s) (vis_filename ext dir start goal)
                    (map_option snd (geodesicDistance ext (vertices s) (faces s) i j))
                    (marker_points start goal cs cg vs vg) (html_files s) = Inl e
            \<longrightarrow> get_actual_distance_from_query ext s q = (Inl e, s))"
  using assms(1) get_navigable_distance_snapped [OF assms(2,3)]
  by (simp add: get_actual_distance_from_query_def)

theorem visualizer_failure_propagates_witness:
  "nl_to_numpy islands_ext ''(0,0,0),(1,0,0)'' = (Some (Fin 0, Fin 0, Fin 0), Some (Fin 1, Fin 0, Fin 0))
   \<and> snap_to_closest_vertex islands_ext (islands (Some ''missing'')) (Fin 0, Fin 0, Fin 0)
       = Inr ((Fin 0, Fin 0, Fin 0), (Fin 0, Fin 0, Fin 0), 0)
   \<and> snap_to_closest_vertex islands_ext (islands (Some ''missing'')) (Fin 1, Fin 0, Fin 0)
       = Inr ((Fin 1, Fin 0, Fin 0), (Fin 1, Fin 0, Fin 0), 1)
   \<and> vis_dirpath (islands (Some ''missing'')) = Some ''missing''
   \<and> visualize_navmesh_3d islands_ext (vertices (islands (Some ''missing''))) (faces (islands (Some ''missing'')))
         (vis_filename islands_ext ''missing'' (Fin 0, Fin 0, Fin 0) (Fin 1, Fin 0, Fin 0))
         (map_option snd (geodesicDistance islands_ext (vertices (islands (Some ''missing'')))
                            (faces (islands (Some ''missing''))) 0 1))
         (marker_points (Fin 0, Fin 0, Fin 0) (Fin 1, Fin 0, Fin 0) (Fin 0, Fin 0, Fin 0)
            (Fin 1, Fin 0, Fin 0) (Fin 0, Fin 0, Fin 0) (Fin 1, Fin 0, Fin 0))
         (html_files (islands (Some ''missing''))) = Inl OSError
   \<and> get_actual_distance_from_query islands_ext (islands (Some ''missing'')) ''(0,0,0),(1,0,0)''
       = (Inl OSError, islands (Some ''missing''))
   \<and> vis_dirpath (islands None) = None
   \<and> get_actual_distance_from_query islands_ext (islands None) ''(0,0,0),(1,0,0)''
       = (Inr (navigable_response islands_ext
                 (geodesicDistance islands_ext (vertices (islands None)) (faces (islands None)) 0 1)),
          islands None)"
proof -
  have h1: "nl_to_numpy islands_ext ''(0,0,0),(1,0,0)''
              = (Some (Fin 0, Fin 0, Fin 0), Some (Fin 1, Fin 0, Fin 0))"
    by (simp add: run_defs)
  have h2: "snap_to_closest_vertex islands_ext (islands (Some ''missing'')) (Fin 0, Fin 0, Fin 0)
              = Inr ((Fin 0, Fin 0, Fin 0), (Fin 0, Fin 0, Fin 0), 0)"
    by (simp add: run_defs)
  have h3: "snap_to_closest_vertex islands_ext (islands (Some ''missing'')) (Fin 1, Fin 0, Fin 0)
              = Inr ((Fin 1, Fin 0, Fin 0), (Fin 1, Fin 0, Fin 0), 1)"
    by (simp add: run_defs)
  have h4: "vis_dirpath (islands (Some ''missing'')) = Some ''missing''" by (simp add: islands_def)
  have h5: "visualize_navmesh_3d islands_ext (vertices (islands (Some ''missing''))) (faces (islands (Some ''missing'')))
         (vis_filename islands_ext ''missing'' (Fin 0, Fin 0, Fin 0) (Fin 1, Fin 0, Fin 0))
         (map_option snd (geodesicDistance islands_ext (vertices (islands (Some ''missing'')))
                            (faces (islands (Some ''missing''))) 0 1))
         (marker_points (Fin 0, Fin 0, Fin 0) (Fin 1, Fin 0, Fin 0) (Fin 0, Fin 0, Fin 0)
            (Fin 1, Fin 0, Fin 0) (Fin 0, Fin 0, Fin 0) (Fin 1, Fin 0, Fin 0))
         (html_files (islands (Some ''missing''))) = Inl OSError"
    by (simp add: run_defs)
  from visualizer_failure_propagates [OF h1 h2 h3] h4 h5
  have "get_actual_distance_from_query islands_ext (islands (Some ''missing'')) ''(0,0,0),(1,0,0)''
          = (Inl OSError, islands (Some ''missing''))"
    by blast
  moreover have n2: "snap_to_closest_vertex islands_ext (islands None) (Fin 0, Fin 0, Fin 0)
              = Inr ((Fin 0, Fin 0, Fin 0), (Fin 0, Fin 0, Fin 0), 0)"
    by (rule snap_vertex0)
  moreover have n3: "snap_to_closest_vertex islands_ext (islands None) (Fin 1, Fin 0, Fin 0)
              = Inr ((Fin 1, Fin 0, Fin 0), (Fin 1, Fin 0, Fin 0), 1)"
    by (simp add: run_defs)
  moreover have n4: "vis_dirpath (islands None) = None" by (simp add: islands_def)
  moreover from visualizer_failure_propagates [OF h1 n2 n3] n4
  have "get_actual_distance_from_query islands_ext (islands None) ''(0,0,0),(1,0,0)''
          = (Inr (navigable_response islands_ext
                    (geodesicDistance islands_ext (vertices (islands None)) (faces (islands None)) 0 1)),
             islands None)"
    by blast
  ultimately show ?thesis using h1 h2 h3 h4 h5 by blast
qed

text \<open>
  Claim C9. The vertex and face arrays are stored by the constructor and changed by no
  operation: \<^verbatim>\<open>_get_navigable_distance\<close> and both queries leave them as they were, and
  after any sequence of queries on a plugin built by the constructor they are still the
  arrays that the reader returned.
\<close>

theorem mesh_read_only:
  "(\<forall>s a b. vertices (snd (get_navigable_distance ext s a b)) = vertices s
            \<and> faces (snd (get_navigable_distance ext s a b)) = faces s)
   \<and> (\<forall>s q. vertices (snd (run_query ext s q)) = vertices s
            \<and> faces (snd (run_query ext s q)) = faces s)
   \<and> (\<forall>path vis s0 qs. init ext path vis = Inr s0
        \<longrightarrow> read_mesh_from_file ext path
              = Inr (vertices (run_queries ext s0 qs), faces (run_queries ext s0 qs)))"
proof (intro conjI allI impI)
  fix path vis s0 qs
  assume "init ext path vis = Inr s0"
  then have "read_mesh_from_file ext path = Inr (vertices s0, faces s0)"
    by (auto simp: init_def split: sum.splits prod.splits)
  then show "read_mesh_from_file ext path
              = Inr (vertices (run_queries ext s0 qs), faces (run_queries ext s0 qs))"
    by (simp add: run_queries_frame)
qed (simp_all add: get_navigable_distance_frame run_query_frame)

theorem mesh_read_only_witness:
  "init islands_ext ''islands.txt'' (Some ''out'') = Inr (islands (Some ''out''))
   \<and> read_mesh_from_file islands_ext ''islands.txt'' = Inr (islands_vertices, islands_faces)
   \<and> vertices (run_queries islands_ext (islands (Some ''out''))
                  [Actual ''(0,0,0),(1,0,0)'', Line ''(0,0,0),(5,0,0)'', Actual ''None''])
       = islands_vertices
   \<and> faces (run_queries islands_ext (islands (Some ''out''))
                  [Actual ''(0,0,0),(1,0,0)'', Line ''(0,0,0),(5,0,0)'', Actual ''None''])
       = islands_faces"
proof -
  have h: "init islands_ext ''islands.txt'' (Some ''out'') = Inr (islands (Some ''out''))"
    by (simp add: init_def islands_ext_simps islands_reader_def islands_def)
  have r: "read_mesh_from_file islands_ext ''islands.txt'' = Inr (islands_vertices, islands_faces)"
    by (simp add: islands_ext_simps islands_reader_def)
  from mesh_read_only [of islands_ext] h
  have "read_mesh_from_file islands_ext ''islands.txt''
          = Inr (vertices (run_queries islands_ext (islands (Some ''out''))
                   [Actual ''(0,0,0),(1,0,0)'', Line ''(0,0,0),(5,0,0)'', Actual ''None'']),
                 faces (run_queries islands_ext (islands (Some ''out''))
                   [Actual ''(0,0,0),(1,0,0)'', Line ''(0,0,0),(5,0,0)'', Actual ''None'']))"
    by blast
  with h r show ?thesis by simp
qed

end
